theory Spec2Isabelle
  imports Complex_Main
begin

section \<open>The checkout program of refactor\_solid.py\<close>

subsection \<open>Data model\<close>

text \<open>
  The dataclass \<open>Order\<close>: three fields, the last with the default \<open>"open"\<close>.
  The price is annotated \<open>float\<close> and is never used in arithmetic: the program only
  stores it, so it is carried as a number that no operation inspects.
\<close>

record Order =
  customer_name :: string
  total_price :: real
  status :: string

text \<open>
  The generated \<open>__init__\<close> of the dataclass: \<open>Order(name, price)\<close> leaves the
  status at its default, \<open>Order(name, price, s)\<close> takes the caller's string as it is.
\<close>

definition Order_init :: "string \<Rightarrow> real \<Rightarrow> string option \<Rightarrow> Order" where
  "Order_init name price st =
     \<lparr>customer_name = name, total_price = price,
      status = (case st of None \<Rightarrow> ''open'' | Some s \<Rightarrow> s)\<rparr>"

text \<open>
  Everything outside the order that a call can touch: the lines handed to the
  process-wide logger (the message only; the format adds the time and the level
  \<open>INFO\<close>), the lines printed on standard output, and whatever state the injected
  strategies keep for themselves.
\<close>

record 'w env =
  logged :: "string list"
  stdout :: "string list"
  ext :: 'w

definition logger_info :: "string \<Rightarrow> 'w env \<Rightarrow> 'w env" where
  "logger_info msg e = e\<lparr>logged := logged e @ [msg]\<rparr>"

definition py_print :: "string \<Rightarrow> 'w env \<Rightarrow> 'w env" where
  "py_print msg e = e\<lparr>stdout := stdout e @ [msg]\<rparr>"

text \<open>The statement \<open>pass\<close> does nothing.\<close>

definition pass_stmt :: "'s \<Rightarrow> 's" where
  "pass_stmt s = s"

subsection \<open>The two interfaces\<close>

text \<open>
  An exception raised by a strategy is a value; the coordinator has no \<open>try\<close>, so it
  propagates to the caller of \<open>run_checkout\<close>.
\<close>

datatype error = Raised string

text \<open>
  \<open>IPaymentProcessor.process(order) -> bool\<close> and
  \<open>INotificationService.send(order)\<close> are abstract. An implementation receives the
  order object itself, so it is a function that may change the order and the
  environment, and that returns a value or raises. The result of \<open>process\<close> is
  annotated \<open>bool\<close>, and the coordinator only tests it with \<open>if\<close>.
\<close>

type_synonym 'w IPaymentProcessor =
  "Order \<Rightarrow> 'w env \<Rightarrow> (error + bool) \<times> Order \<times> 'w env"

type_synonym 'w INotificationService =
  "Order \<Rightarrow> 'w env \<Rightarrow> (error + unit) \<times> Order \<times> 'w env"

subsection \<open>Concrete strategies\<close>

definition CreditCardProcessor_process :: "'w IPaymentProcessor" where
  "CreditCardProcessor_process order e =
     (Inr True, order, logger_info ''Payment: Memproses Kartu Kredit.'' e)"

definition QrisProcessor_process :: "'w IPaymentProcessor" where
  "QrisProcessor_process order e =
     (Inr True, order, logger_info ''Payment: Memproses QRIS.'' e)"

definition EmailNotifier_send :: "'w INotificationService" where
  "EmailNotifier_send order e =
     (Inr (), order,
      logger_info (''Notif: Mengirim email konfirmasi ke '' @ customer_name order @ ''.'') e)"

subsection \<open>The coordinator\<close>

record 'w CheckoutService =
  payment_processor :: "'w IPaymentProcessor"
  notifier :: "'w INotificationService"

definition CheckoutService_init ::
  "'w IPaymentProcessor \<Rightarrow> 'w INotificationService \<Rightarrow> 'w CheckoutService" where
  "CheckoutService_init pp n = \<lparr>payment_processor = pp, notifier = n\<rparr>"

text \<open>
  What the coordinator itself does to its collaborators and to the order, in order of
  execution: the call of \<open>process\<close> with the order as it is at that moment, the
  assignment to \<open>order.status\<close>, the call of \<open>send\<close> with the order as it is at that
  moment.
\<close>

datatype event = Process_call Order | Status_write string | Send_call Order

text \<open>
  The result of one call of \<open>run_checkout\<close>: what it returned (or the exception that
  left it), the order and the environment afterwards, the coordinator's own steps, and
  the coordinator object afterwards.
\<close>

record 'w outcome =
  returned :: "error + bool"
  order_after :: Order
  env_after :: "'w env"
  trace :: "event list"
  self_after :: "'w CheckoutService"

definition start_line :: "Order \<Rightarrow> string" where
  "start_line order = ''--- Memulai Checkout untuk '' @ customer_name order @ '' ---''"

definition run_checkout :: "'w CheckoutService \<Rightarrow> Order \<Rightarrow> 'w env \<Rightarrow> 'w outcome" where
  "run_checkout self order e0 =
     (let e1 = pass_stmt e0;
          e2 = logger_info (start_line order) e1;
          (payment_success, order1, e3) = payment_processor self order e2
      in case payment_success of
           Inl exn \<Rightarrow>
             \<lparr>returned = Inl exn, order_after = order1, env_after = e3,
              trace = [Process_call order], self_after = self\<rparr>
         | Inr ok \<Rightarrow>
             if ok then
               (let order2 = order1\<lparr>status := ''paid''\<rparr>;
                    (sent, order3, e4) = notifier self order2 e3
                in case sent of
                     Inl exn \<Rightarrow>
                       \<lparr>returned = Inl exn, order_after = order3, env_after = e4,
                        trace = [Process_call order, Status_write ''paid'', Send_call order2],
                        self_after = self\<rparr>
                   | Inr u \<Rightarrow>
                       \<lparr>returned = Inr True, order_after = order3,
                        env_after = logger_info ''Checkout Sukses. Transaksi selesai.'' e4,
                        trace = [Process_call order, Status_write ''paid'', Send_call order2],
                        self_after = self\<rparr>)
             else
               \<lparr>returned = Inr False, order_after = order1, env_after = e3,
                trace = [Process_call order], self_after = self\<rparr>)"

text \<open>The same function with the leading \<open>pass\<close> deleted.\<close>

definition run_checkout_without_pass ::
  "'w CheckoutService \<Rightarrow> Order \<Rightarrow> 'w env \<Rightarrow> 'w outcome" where
  "run_checkout_without_pass self order e0 =
     (let e2 = logger_info (start_line order) e0;
          (payment_success, order1, e3) = payment_processor self order e2
      in case payment_success of
           Inl exn \<Rightarrow>
             \<lparr>returned = Inl exn, order_after = order1, env_after = e3,
              trace = [Process_call order], self_after = self\<rparr>
         | Inr ok \<Rightarrow>
             if ok then
               (let order2 = order1\<lparr>status := ''paid''\<rparr>;
                    (sent, order3, e4) = notifier self order2 e3
                in case sent of
                     Inl exn \<Rightarrow>
                       \<lparr>returned = Inl exn, order_after = order3, env_after = e4,
                        trace = [Process_call order, Status_write ''paid'', Send_call order2],
                        self_after = self\<rparr>
                   | Inr u \<Rightarrow>
                       \<lparr>returned = Inr True, order_after = order3,
                        env_after = logger_info ''Checkout Sukses. Transaksi selesai.'' e4,
                        trace = [Process_call order, Status_write ''paid'', Send_call order2],
                        self_after = self\<rparr>)
             else
               \<lparr>returned = Inr False, order_after = order1, env_after = e3,
                trace = [Process_call order], self_after = self\<rparr>)"

subsection \<open>The main program\<close>

definition andi_order :: Order where
  "andi_order = Order_init ''Andi'' 500000 None"

definition budi_order :: Order where
  "budi_order = Order_init ''Budi'' 100000 None"

definition email_service :: "'w INotificationService" where
  "email_service = EmailNotifier_send"

definition cc_processor :: "'w IPaymentProcessor" where
  "cc_processor = CreditCardProcessor_process"

definition qris_processor :: "'w IPaymentProcessor" where
  "qris_processor = QrisProcessor_process"

definition checkout_cc :: "'w CheckoutService" where
  "checkout_cc = CheckoutService_init cc_processor email_service"

definition checkout_qris :: "'w CheckoutService" where
  "checkout_qris = CheckoutService_init qris_processor email_service"

text \<open>
  The module body runs the two scenarios one after the other on the same logger and the
  same notifier. An exception in the first would end the program before the second.
\<close>

definition main_program :: "'w env \<Rightarrow> 'w outcome \<times> 'w outcome option" where
  "main_program e0 =
     (let e1 = py_print (CHR 0x0A # ''[Skenario 1: Credit Card]'') e0;
          r1 = run_checkout checkout_cc andi_order e1
      in case returned r1 of
           Inl exn \<Rightarrow> (r1, None)
         | Inr b \<Rightarrow>
             (let e2 = py_print (CHR 0x0A # ''[Skenario 2: Pembuktian OCP (QRIS)]'') (env_after r1);
                  r2 = run_checkout checkout_qris budi_order e2
              in (r1, Some r2)))"

subsection \<open>Vocabulary for the properties\<close>

text \<open>
  The interfaces come with obligations that the language does not enforce. A
  strategy leaves the order unchanged when the order it hands back is the order it
  received, whatever the environment; it returns normally when it never raises.
\<close>

definition leaves_order_unchanged :: "(Order \<Rightarrow> 'w env \<Rightarrow> 'r \<times> Order \<times> 'w env) \<Rightarrow> bool" where
  "leaves_order_unchanged f \<longleftrightarrow> (\<forall>order e. fst (snd (f order e)) = order)"


text \<open>The orders that \<open>send\<close> was called with, and the values written to the status.\<close>

fun sends :: "event list \<Rightarrow> Order list" where
  "sends [] = []"
| "sends (Send_call order # es) = order # sends es"
| "sends (Process_call order # es) = sends es"
| "sends (Status_write s # es) = sends es"

fun status_writes :: "event list \<Rightarrow> string list" where
  "status_writes [] = []"
| "status_writes (Status_write s # es) = s # status_writes es"
| "status_writes (Process_call order # es) = status_writes es"
| "status_writes (Send_call order # es) = status_writes es"

text \<open>
  A client that calls \<open>run_checkout\<close> on one order again and again, each time through
  some coordinator, and keeps the order.
\<close>

fun checkout_sequence :: "'w CheckoutService list \<Rightarrow> Order \<Rightarrow> 'w env \<Rightarrow> Order" where
  "checkout_sequence [] order e = order"
| "checkout_sequence (s # ss) order e =
     (let r = run_checkout s order e in checkout_sequence ss (order_after r) (env_after r))"

section \<open>Verification\<close>

subsection \<open>The paths through the coordinator\<close>

lemma leaves_order_unchangedD:
  assumes "leaves_order_unchanged f" and "f order e = (r, order1, e1)"
  shows "order1 = order"
proof -
  from assms(1) have "fst (snd (f order e)) = order"
    by (simp add: leaves_order_unchanged_def)
  with assms(2) show ?thesis by simp
qed


lemma run_checkout_raised:
  assumes "payment_processor self order (logger_info (start_line order) e) = (Inl x, order1, e1)"
  shows "run_checkout self order e =
     \<lparr>returned = Inl x, order_after = order1, env_after = e1,
      trace = [Process_call order], self_after = self\<rparr>"
  using assms by (simp add: run_checkout_def pass_stmt_def)

lemma run_checkout_declined:
  assumes "payment_processor self order (logger_info (start_line order) e) = (Inr False, order1, e1)"
  shows "run_checkout self order e =
     \<lparr>returned = Inr False, order_after = order1, env_after = e1,
      trace = [Process_call order], self_after = self\<rparr>"
  using assms by (simp add: run_checkout_def pass_stmt_def)

lemma run_checkout_paid_send_raised:
  assumes "payment_processor self order (logger_info (start_line order) e) = (Inr True, order1, e1)"
    and "notifier self (order1\<lparr>status := ''paid''\<rparr>) e1 = (Inl x, order2, e2)"
  shows "run_checkout self order e =
     \<lparr>returned = Inl x, order_after = order2, env_after = e2,
      trace = [Process_call order, Status_write ''paid'', Send_call (order1\<lparr>status := ''paid''\<rparr>)],
      self_after = self\<rparr>"
  using assms by (simp add: run_checkout_def pass_stmt_def)

lemma run_checkout_paid:
  assumes "payment_processor self order (logger_info (start_line order) e) = (Inr True, order1, e1)"
    and "notifier self (order1\<lparr>status := ''paid''\<rparr>) e1 = (Inr u, order2, e2)"
  shows "run_checkout self order e =
     \<lparr>returned = Inr True, order_after = order2,
      env_after = logger_info ''Checkout Sukses. Transaksi selesai.'' e2,
      trace = [Process_call order, Status_write ''paid'', Send_call (order1\<lparr>status := ''paid''\<rparr>)],
      self_after = self\<rparr>"
  using assms by (simp add: run_checkout_def pass_stmt_def)

lemma run_checkout_cases:
  obtains
    (raised) x order1 e1 where
      "payment_processor self order (logger_info (start_line order) e) = (Inl x, order1, e1)"
  | (declined) order1 e1 where
      "payment_processor self order (logger_info (start_line order) e) = (Inr False, order1, e1)"
  | (send_raised) order1 e1 x order2 e2 where
      "payment_processor self order (logger_info (start_line order) e) = (Inr True, order1, e1)"
      "notifier self (order1\<lparr>status := ''paid''\<rparr>) e1 = (Inl x, order2, e2)"
  | (paid) order1 e1 order2 e2 where
      "payment_processor self order (logger_info (start_line order) e) = (Inr True, order1, e1)"
      "notifier self (order1\<lparr>status := ''paid''\<rparr>) e1 = (Inr (), order2, e2)"
proof -
  obtain res order1 e1 where p:
    "payment_processor self order (logger_info (start_line order) e) = (res, order1, e1)"
    by (cases "payment_processor self order (logger_info (start_line order) e)") auto
  obtain sent order2 e2 where n:
    "notifier self (order1\<lparr>status := ''paid''\<rparr>) e1 = (sent, order2, e2)"
    by (cases "notifier self (order1\<lparr>status := ''paid''\<rparr>) e1") auto
  show thesis
  proof (cases res)
    case (Inl x)
    with p raised show ?thesis by simp
  next
    case (Inr ok)
    show ?thesis
    proof (cases ok)
      case False
      with p Inr declined show ?thesis by simp
    next
      case True
      show ?thesis
      proof (cases sent)
        case (Inl x)
        with p n \<open>res = Inr ok\<close> True send_raised show ?thesis by simp
      next
        case (Inr u)
        with p n \<open>res = Inr ok\<close> True paid show ?thesis by simp
      qed
    qed
  qed
qed

subsection \<open>The program's own strategies\<close>

lemma checkout_cc_simps:
  "payment_processor checkout_cc = CreditCardProcessor_process"
  "notifier checkout_cc = EmailNotifier_send"
  by (simp_all add: checkout_cc_def CheckoutService_init_def cc_processor_def email_service_def)

lemma checkout_qris_simps:
  "payment_processor checkout_qris = QrisProcessor_process"
  "notifier checkout_qris = EmailNotifier_send"
  by (simp_all add: checkout_qris_def CheckoutService_init_def qris_processor_def email_service_def)

lemma concrete_strategies_keep_order:
  "leaves_order_unchanged CreditCardProcessor_process"
  "leaves_order_unchanged QrisProcessor_process"
  "leaves_order_unchanged EmailNotifier_send"
  by (simp_all add: leaves_order_unchanged_def CreditCardProcessor_process_def
      QrisProcessor_process_def EmailNotifier_send_def)


lemma run_checkout_with_CreditCard:
  "run_checkout checkout_cc order e =
     \<lparr>returned = Inr True, order_after = order\<lparr>status := ''paid''\<rparr>,
      env_after = e\<lparr>logged := logged e @
        [start_line order, ''Payment: Memproses Kartu Kredit.'',
         ''Notif: Mengirim email konfirmasi ke '' @ customer_name order @ ''.'',
         ''Checkout Sukses. Transaksi selesai.'']\<rparr>,
      trace = [Process_call order, Status_write ''paid'', Send_call (order\<lparr>status := ''paid''\<rparr>)],
      self_after = checkout_cc\<rparr>"
  by (simp add: run_checkout_def Let_def pass_stmt_def checkout_cc_simps CreditCardProcessor_process_def
      EmailNotifier_send_def logger_info_def)

lemma run_checkout_with_Qris:
  "run_checkout checkout_qris order e =
     \<lparr>returned = Inr True, order_after = order\<lparr>status := ''paid''\<rparr>,
      env_after = e\<lparr>logged := logged e @
        [start_line order, ''Payment: Memproses QRIS.'',
         ''Notif: Mengirim email konfirmasi ke '' @ customer_name order @ ''.'',
         ''Checkout Sukses. Transaksi selesai.'']\<rparr>,
      trace = [Process_call order, Status_write ''paid'', Send_call (order\<lparr>status := ''paid''\<rparr>)],
      self_after = checkout_qris\<rparr>"
  by (simp add: run_checkout_def Let_def pass_stmt_def checkout_qris_simps QrisProcessor_process_def
      EmailNotifier_send_def logger_info_def)

subsection \<open>What one call can do to the order and which steps it takes\<close>

lemma run_checkout_order_after:
  assumes "leaves_order_unchanged (payment_processor self)"
    and "leaves_order_unchanged (notifier self)"
  shows "order_after (run_checkout self order e) = order
       \<or> order_after (run_checkout self order e) = order\<lparr>status := ''paid''\<rparr>
           \<and> fst (payment_processor self order (logger_info (start_line order) e)) = Inr True"
proof (cases self order e rule: run_checkout_cases)
  case (raised x order1 e1)
  from assms(1) raised have "order1 = order" by (rule leaves_order_unchangedD)
  then show ?thesis by (simp add: run_checkout_raised[OF raised])
next
  case (declined order1 e1)
  from assms(1) declined have "order1 = order" by (rule leaves_order_unchangedD)
  then show ?thesis by (simp add: run_checkout_declined[OF declined])
next
  case (send_raised order1 e1 x order2 e2)
  from assms(1) send_raised(1) have "order1 = order" by (rule leaves_order_unchangedD)
  moreover from assms(2) send_raised(2) have "order2 = order1\<lparr>status := ''paid''\<rparr>"
    by (rule leaves_order_unchangedD)
  ultimately show ?thesis
    by (simp add: run_checkout_paid_send_raised[OF send_raised] send_raised(1))
next
  case (paid order1 e1 order2 e2)
  from assms(1) paid(1) have "order1 = order" by (rule leaves_order_unchangedD)
  moreover from assms(2) paid(2) have "order2 = order1\<lparr>status := ''paid''\<rparr>"
    by (rule leaves_order_unchangedD)
  ultimately show ?thesis
    by (simp add: run_checkout_paid[OF paid] paid(1))
qed

lemma run_checkout_trace:
  "trace (run_checkout self order e) = [Process_call order]
     \<and> fst (payment_processor self order (logger_info (start_line order) e)) \<noteq> Inr True
   \<or> trace (run_checkout self order e) =
       [Process_call order, Status_write ''paid'',
        Send_call ((fst (snd (payment_processor self order (logger_info (start_line order) e))))
                     \<lparr>status := ''paid''\<rparr>)]
     \<and> fst (payment_processor self order (logger_info (start_line order) e)) = Inr True"
proof (cases self order e rule: run_checkout_cases)
  case (raised x order1 e1)
  then show ?thesis by (simp add: run_checkout_raised[OF raised])
next
  case (declined order1 e1)
  then show ?thesis by (simp add: run_checkout_declined[OF declined])
next
  case (send_raised order1 e1 x order2 e2)
  then show ?thesis by (simp add: run_checkout_paid_send_raised[OF send_raised])
next
  case (paid order1 e1 order2 e2)
  then show ?thesis by (simp add: run_checkout_paid[OF paid])
qed


lemma checkout_sequence_status:
  assumes "\<forall>s \<in> set ss. leaves_order_unchanged (payment_processor s)
                       \<and> leaves_order_unchanged (notifier s)"
    and "status order \<in> {''open'', ''paid''}"
  shows "status (checkout_sequence ss order e) \<in> {''open'', ''paid''}"
  using assms
proof (induction ss arbitrary: order e)
  case Nil
  then show ?case by simp
next
  case (Cons s ss)
  from Cons.prems(1) have s: "leaves_order_unchanged (payment_processor s)"
    "leaves_order_unchanged (notifier s)" by simp_all
  from run_checkout_order_after[OF s, of order e] Cons.prems(2)
  have "status (order_after (run_checkout s order e)) \<in> {''open'', ''paid''}"
    by auto
  moreover from Cons.prems(1) have "\<forall>s \<in> set ss. leaves_order_unchanged (payment_processor s)
                       \<and> leaves_order_unchanged (notifier s)" by simp
  ultimately show ?case
    using Cons.IH by (simp add: Let_def)
qed

subsection \<open>Payment succeeds\<close>



subsection \<open>Payment fails\<close>



subsection \<open>The life of the status field\<close>

text \<open>
  Claim C3. An order constructed without an explicit status starts at \<open>"open"\<close>.
  With strategies that leave the order alone, one call of \<open>run_checkout\<close> either
  keeps the order as it is or sets its status to \<open>"paid"\<close>; when the status changes,
  the new value is \<open>"paid"\<close>, the call of \<open>process\<close> reported success, and the write
  is the step right after that call. A status \<open>"paid"\<close> stays \<open>"paid"\<close>. So after any
  number of checkouts, through any such coordinators, a freshly constructed order has
  status \<open>"open"\<close> or \<open>"paid"\<close>.
\<close>

theorem order_status_lifecycle:
  assumes "leaves_order_unchanged (payment_processor self)"
    and "leaves_order_unchanged (notifier self)"
    and "\<forall>s \<in> set ss. leaves_order_unchanged (payment_processor s)
                       \<and> leaves_order_unchanged (notifier s)"
  shows "status (Order_init name price None) = ''open''
       \<and> (order_after (run_checkout self order e) = order
            \<or> order_after (run_checkout self order e) = order\<lparr>status := ''paid''\<rparr>)
       \<and> (status (order_after (run_checkout self order e)) \<noteq> status order \<longrightarrow>
              status (order_after (run_checkout self order e)) = ''paid''
            \<and> fst (payment_processor self order (logger_info (start_line order) e)) = Inr True
            \<and> (\<exists>sent. trace (run_checkout self order e) =
                   [Process_call order, Status_write ''paid'', Send_call sent]))
       \<and> (status order = ''paid'' \<longrightarrow>
              status (order_after (run_checkout self order e)) = ''paid'')
       \<and> status (checkout_sequence ss (Order_init name price None) e) \<in> {''open'', ''paid''}"
proof -
  have init: "status (Order_init name price None) = ''open''"
    by (simp add: Order_init_def)
  note step = run_checkout_order_after[OF assms(1,2), of order e]
  have a: "order_after (run_checkout self order e) = order
            \<or> order_after (run_checkout self order e) = order\<lparr>status := ''paid''\<rparr>"
    using step by blast
  have b: "status (order_after (run_checkout self order e)) \<noteq> status order \<longrightarrow>
              status (order_after (run_checkout self order e)) = ''paid''
            \<and> fst (payment_processor self order (logger_info (start_line order) e)) = Inr True
            \<and> (\<exists>sent. trace (run_checkout self order e) =
                   [Process_call order, Status_write ''paid'', Send_call sent])"
    using step run_checkout_trace[of self order e] by auto
  have c: "status order = ''paid'' \<longrightarrow>
              status (order_after (run_checkout self order e)) = ''paid''"
    using step by auto
  have d: "status (checkout_sequence ss (Order_init name price None) e) \<in> {''open'', ''paid''}"
    using assms(3) by (rule checkout_sequence_status) (simp add: init)
  from init a b c d show ?thesis by blast
qed

text \<open>
  Two instances: Andi's fresh order goes from \<open>"open"\<close> to \<open>"paid"\<close>, and the same
  order, once paid, stays paid in a second checkout through the other coordinator.
\<close>

theorem order_status_lifecycle_witness:
  "leaves_order_unchanged (payment_processor (checkout_cc :: unit CheckoutService))
   \<and> leaves_order_unchanged (notifier (checkout_cc :: unit CheckoutService))
   \<and> leaves_order_unchanged (payment_processor (checkout_qris :: unit CheckoutService))
   \<and> leaves_order_unchanged (notifier (checkout_qris :: unit CheckoutService))
   \<and> status (Order_init ''Andi'' 500000 None) = ''open''
   \<and> status (order_after (run_checkout checkout_cc andi_order \<lparr>logged = [], stdout = [], ext = ()\<rparr>)) \<noteq> status andi_order
   \<and> status (order_after (run_checkout checkout_cc andi_order \<lparr>logged = [], stdout = [], ext = ()\<rparr>)) = ''paid''
   \<and> fst (payment_processor checkout_cc andi_order (logger_info (start_line andi_order) \<lparr>logged = [], stdout = [], ext = ()\<rparr>))
       = Inr True
   \<and> status (checkout_sequence [checkout_cc, checkout_qris] (Order_init ''Andi'' 500000 None) \<lparr>logged = [], stdout = [], ext = ()\<rparr>)
       \<in> {''open'', ''paid''}
   \<and> status (andi_order\<lparr>status := ''paid''\<rparr>) = ''paid''
   \<and> status (order_after (run_checkout checkout_qris (andi_order\<lparr>status := ''paid''\<rparr>) \<lparr>logged = [], stdout = [], ext = ()\<rparr>))
       = ''paid''"
proof -
  have h1: "leaves_order_unchanged (payment_processor (checkout_cc :: unit CheckoutService))"
    and h2: "leaves_order_unchanged (notifier (checkout_cc :: unit CheckoutService))"
    and h3: "leaves_order_unchanged (payment_processor (checkout_qris :: unit CheckoutService))"
    and h4: "leaves_order_unchanged (notifier (checkout_qris :: unit CheckoutService))"
    by (simp_all add: checkout_cc_simps checkout_qris_simps concrete_strategies_keep_order)
  from h1 h2 h3 h4
  have h5: "\<forall>s \<in> set [checkout_cc, checkout_qris :: unit CheckoutService].
         leaves_order_unchanged (payment_processor s) \<and> leaves_order_unchanged (notifier s)"
    by simp
  have changed:
    "status (order_after (run_checkout checkout_cc andi_order \<lparr>logged = [], stdout = [], ext = ()\<rparr>)) \<noteq> status andi_order"
    by (simp add: run_checkout_with_CreditCard andi_order_def Order_init_def)
  have paid: "status (andi_order\<lparr>status := ''paid''\<rparr>) = ''paid''"
    by simp
  from order_status_lifecycle[OF h1 h2 h5, of "''Andi''" 500000 andi_order "\<lparr>logged = [], stdout = [], ext = ()\<rparr>"]
    order_status_lifecycle[OF h3 h4 h5, of "''Andi''" 500000 "andi_order\<lparr>status := ''paid''\<rparr>"
      "\<lparr>logged = [], stdout = [], ext = ()\<rparr>"]
    h1 h2 h3 h4 changed paid
  show ?thesis by simp
qed

subsection \<open>No guard on the status\<close>



subsection \<open>Frame\<close>



subsection \<open>The notifier sees a paid order\<close>

text \<open>
  Claim C6. If \<open>run_checkout\<close> calls \<open>send\<close>, the order it passes has status
  \<open>"paid"\<close> at that moment, and the write of the status is the step just before the
  call. This holds for every pair of strategies.
\<close>

theorem send_sees_paid_order:
  assumes "Send_call sent \<in> set (trace (run_checkout self order e))"
  shows "status sent = ''paid''
       \<and> trace (run_checkout self order e) =
           [Process_call order, Status_write ''paid'', Send_call sent]"
  using assms run_checkout_trace[of self order e] by auto

theorem send_sees_paid_order_witness:
  "Send_call \<lparr>customer_name = ''Andi'', total_price = 500000, status = ''paid''\<rparr>
     \<in> set (trace (run_checkout checkout_cc andi_order \<lparr>logged = [], stdout = [], ext = ()\<rparr>))
   \<and> status \<lparr>customer_name = ''Andi'', total_price = 500000, status = ''paid''\<rparr> = ''paid''
   \<and> trace (run_checkout checkout_cc andi_order \<lparr>logged = [], stdout = [], ext = ()\<rparr>) =
       [Process_call andi_order, Status_write ''paid'',
        Send_call \<lparr>customer_name = ''Andi'', total_price = 500000, status = ''paid''\<rparr>]"
proof -
  have h: "Send_call \<lparr>customer_name = ''Andi'', total_price = 500000, status = ''paid''\<rparr>
     \<in> set (trace (run_checkout checkout_cc andi_order \<lparr>logged = [], stdout = [], ext = ()\<rparr>))"
    by (simp add: run_checkout_with_CreditCard andi_order_def Order_init_def)
  from send_sees_paid_order[OF h] h show ?thesis by simp
qed

subsection \<open>The two payment processors and the two scenarios\<close>

text \<open>
  Claim C7. \<open>CreditCardProcessor.process\<close> and \<open>QrisProcessor.process\<close> return
  \<open>True\<close> for every order. Both scenarios of the program, Andi's order by credit card
  and Budi's order by QRIS, return \<open>True\<close> and end with status \<open>"paid"\<close>, one
  notification each; the main program runs both to the end.
\<close>

theorem in_scope_processors_always_succeed:
  "fst (CreditCardProcessor_process order e) = Inr True
   \<and> fst (QrisProcessor_process order e) = Inr True
   \<and> returned (run_checkout checkout_cc andi_order e) = Inr True
   \<and> status (order_after (run_checkout checkout_cc andi_order e)) = ''paid''
   \<and> returned (run_checkout checkout_qris budi_order e) = Inr True
   \<and> status (order_after (run_checkout checkout_qris budi_order e)) = ''paid''
   \<and> (\<exists>r1 r2. main_program e = (r1, Some r2)
        \<and> returned r1 = Inr True
        \<and> order_after r1 = \<lparr>customer_name = ''Andi'', total_price = 500000, status = ''paid''\<rparr>
        \<and> sends (trace r1) = [order_after r1]
        \<and> returned r2 = Inr True
        \<and> order_after r2 = \<lparr>customer_name = ''Budi'', total_price = 100000, status = ''paid''\<rparr>
        \<and> sends (trace r2) = [order_after r2])"
  by (simp add: CreditCardProcessor_process_def QrisProcessor_process_def
      run_checkout_with_CreditCard run_checkout_with_Qris main_program_def Let_def
      andi_order_def budi_order_def Order_init_def)

text \<open>
  Claim C8. Neither \<open>CreditCardProcessor.process\<close> nor \<open>QrisProcessor.process\<close>
  changes the order: the order after the call is the order before it, status included.
  In a checkout through either coordinator the only write of the status is the
  coordinator's own.
\<close>

theorem processors_do_not_mutate_order:
  "fst (snd (CreditCardProcessor_process order e)) = order
   \<and> fst (snd (QrisProcessor_process order e)) = order
   \<and> status (fst (snd (CreditCardProcessor_process order e))) = status order
   \<and> status (fst (snd (QrisProcessor_process order e))) = status order
   \<and> status_writes (trace (run_checkout checkout_cc order e)) = [''paid'']
   \<and> status_writes (trace (run_checkout checkout_qris order e)) = [''paid'']"
  by (simp add: CreditCardProcessor_process_def QrisProcessor_process_def
      run_checkout_with_CreditCard run_checkout_with_Qris)

subsection \<open>The leading pass statement\<close>

text \<open>
  Claim C9. The \<open>pass\<close> at the head of \<open>run_checkout\<close> changes nothing and does not
  end the call: the function and the function without it agree on the returned value,
  the order, the environment, the steps taken and the coordinator.
\<close>

theorem leading_pass_is_inert:
  "run_checkout self order e = run_checkout_without_pass self order e
   \<and> pass_stmt e = e"
  by (simp add: run_checkout_def run_checkout_without_pass_def pass_stmt_def)

subsection \<open>The notifier\<close>

text \<open>
  Claim C10. \<open>EmailNotifier.send\<close> hands the order back unchanged and returns
  \<open>None\<close>; its only effect is one log line built from the customer's name. A status
  \<open>"paid"\<close> is still \<open>"paid"\<close> after it, in particular at the end of a checkout
  through either coordinator of the program.
\<close>

theorem EmailNotifier_does_not_mutate_order:
  "fst (snd (EmailNotifier_send order e)) = order
   \<and> fst (EmailNotifier_send order e) = Inr ()
   \<and> status (fst (snd (EmailNotifier_send (order\<lparr>status := ''paid''\<rparr>) e))) = ''paid''
   \<and> snd (snd (EmailNotifier_send order e)) =
       logger_info (''Notif: Mengirim email konfirmasi ke '' @ customer_name order @ ''.'') e
   \<and> status (order_after (run_checkout checkout_cc order e)) = ''paid''
   \<and> status (order_after (run_checkout checkout_qris order e)) = ''paid''"
  by (simp add: EmailNotifier_send_def run_checkout_with_CreditCard run_checkout_with_Qris)

end
